theory Spec2Isabelle
  imports Main "HOL-Library.Word"
begin

section \<open>Python values, exceptions and the socket environment\<close>

text \<open>
  The client of \<^verbatim>\<open>Music_Player_Client.py\<close> exchanges Python values with a peer. The
  values that occur are modelled by the fragment below: \<^verbatim>\<open>None\<close>, booleans, integers,
  strings, lists and dictionaries (a dictionary is an association list, looked up from
  the front). Floats, tuples and user-defined objects are outside the fragment.
\<close>

datatype pyval =
    PNone
  | PBool bool
  | PInt int
  | PStr string
  | PList "pyval list"
  | PDict "(pyval \<times> pyval) list"

type_synonym bytes = "8 word list"

text \<open>Truth value of an object, as \<^verbatim>\<open>if x:\<close> and \<^verbatim>\<open>not x\<close> compute it.\<close>

fun truthy :: "pyval \<Rightarrow> bool" where
  "truthy PNone = False"
| "truthy (PBool b) = b"
| "truthy (PInt n) = (n \<noteq> 0)"
| "truthy (PStr s) = (s \<noteq> [])"
| "truthy (PList xs) = (xs \<noteq> [])"
| "truthy (PDict kvs) = (kvs \<noteq> [])"

text \<open>
  The exceptions that the socket and pickle calls inside the \<^verbatim>\<open>try\<close> block of
  \<^verbatim>\<open>_send_command\<close> raise. All of them are subclasses of \<^verbatim>\<open>Exception\<close>.
\<close>

datatype exn =
    SocketTimeout
  | ConnectionRefusedError
  | ConnectionResetError
  | ConnectionAbortedError
  | BrokenPipeError
  | GaiError
  | OSError
  | PicklingError
  | UnpicklingError
  | EOFError

text \<open>\<^verbatim>\<open>isinstance(e, ConnectionError)\<close> in Python's class hierarchy.\<close>

fun is_ConnectionError :: "exn \<Rightarrow> bool" where
  "is_ConnectionError ConnectionRefusedError = True"
| "is_ConnectionError ConnectionResetError = True"
| "is_ConnectionError ConnectionAbortedError = True"
| "is_ConnectionError BrokenPipeError = True"
| "is_ConnectionError e = False"

text \<open>The first handler: \<^verbatim>\<open>except (socket.timeout, ConnectionRefusedError, ConnectionError)\<close>.\<close>

definition caught_as_connection :: "exn \<Rightarrow> bool" where
  "caught_as_connection e =
     (e = SocketTimeout \<or> e = ConnectionRefusedError \<or> is_ConnectionError e)"

text \<open>
  What a method of the client raises: \<^verbatim>\<open>ConnectionError\<close> with the host and port of its
  message, \<^verbatim>\<open>RuntimeError\<close> with the exception it wraps, \<^verbatim>\<open>ValueError\<close> from the volume
  check, and \<^verbatim>\<open>AttributeError\<close> from \<^verbatim>\<open>.get\<close> on an object that is not a dictionary.
\<close>

datatype error =
    ConnectionError string int
  | RuntimeError exn
  | ValueError
  | AttributeError

text \<open>
  What successive \<^verbatim>\<open>sock.recv(4096)\<close> calls return on one connection: a chunk, the empty
  byte string of a closed stream, or an exception. The socket has the timeout of the
  client set, so a silent peer makes \<^verbatim>\<open>recv\<close> raise \<^verbatim>\<open>socket.timeout\<close>; the peer sends
  finitely many chunks, so the loop that reads them ends.
\<close>

datatype recv_script =
    Chunk bytes recv_script
  | Eof
  | Raises exn

text \<open>
  What the network does on one connection: whether opening it fails (creating the
  socket and \<^verbatim>\<open>sock.connect\<close>), whether \<^verbatim>\<open>sock.send\<close> fails, what \<^verbatim>\<open>sock.recv\<close> returns,
  and how long the whole call takes (in ticks of the clock).
\<close>

record outcome =
  connect_result :: "exn option"
  send_result :: "exn option"
  recv_results :: recv_script
  latency :: nat

text \<open>
  One entry of the call log: when the call started and when it returned or raised, its
  request, and how it ended.
\<close>

record entry =
  started :: nat
  finished :: nat
  request :: pyval
  answer :: "error + pyval"

text \<open>
  The world outside the client object: the clock that \<^verbatim>\<open>time.time()\<close> reads, in ticks
  (it only moves forward), and the log of the calls made so far.
\<close>

record world =
  clock :: nat
  calls :: "entry list"

text \<open>
  The environment: pickle's two functions, the network (which answers a connection to
  a host and port with a request, knowing the calls made before), and by how many ticks
  \<^verbatim>\<open>time.sleep\<close> oversleeps at a given time.
\<close>

record env =
  dumps :: "pyval \<Rightarrow> exn + bytes"
  loads :: "bytes \<Rightarrow> exn + pyval"
  net :: "entry list \<Rightarrow> string \<Rightarrow> int \<Rightarrow> pyval \<Rightarrow> outcome"
  oversleep :: "nat \<Rightarrow> nat"

text \<open>Ticks of the clock in one second.\<close>

definition second :: nat where
  "second = 1000000"

text \<open>\<^verbatim>\<open>time.sleep(n)\<close>: at least \<open>n\<close> seconds pass.\<close>

definition sleep :: "env \<Rightarrow> world \<Rightarrow> nat \<Rightarrow> world" where
  "sleep E w n = w\<lparr>clock := clock w + n * second + oversleep E (clock w)\<rparr>"

section \<open>The client\<close>

text \<open>
  The fields of \<^verbatim>\<open>MusicPlayerClient\<close>, as \<^verbatim>\<open>__init__\<close> sets them. The timeout is what the
  socket of every call is given; its effect is the \<^verbatim>\<open>socket.timeout\<close> of the environment.
\<close>

record client =
  host :: string
  port :: int
  timeout :: nat
  connected :: bool

definition init :: "string \<Rightarrow> int \<Rightarrow> nat \<Rightarrow> client" where
  "init h p t = \<lparr>host = h, port = p, timeout = t, connected = False\<rparr>"

text \<open>The receive loop of \<^verbatim>\<open>_send_command\<close>: accumulate chunks until an empty one.\<close>

fun recv_loop :: "recv_script \<Rightarrow> bytes \<Rightarrow> exn + bytes" where
  "recv_loop Eof data = Inr data"
| "recv_loop (Raises e) data = Inl e"
| "recv_loop (Chunk chunk rest) data =
     (if chunk = [] then Inr data else recv_loop rest (data @ chunk))"

text \<open>The request dictionary; \<^verbatim>\<open>params\<close> is replaced by \<^verbatim>\<open>{}\<close> when it is \<^verbatim>\<open>None\<close>.\<close>

definition envelope :: "string \<Rightarrow> pyval \<Rightarrow> pyval" where
  "envelope command params =
     PDict [(PStr ''command'', PStr command),
            (PStr ''params'', if params = PNone then PDict [] else params)]"

text \<open>
  The body of the \<^verbatim>\<open>try\<close> block: connect, serialize and send, receive to the end of the
  stream, deserialize. The first exception ends it.
\<close>

definition exchange :: "env \<Rightarrow> outcome \<Rightarrow> pyval \<Rightarrow> exn + pyval" where
  "exchange E out req =
     (case connect_result out of
        Some e \<Rightarrow> Inl e
      | None \<Rightarrow>
          (case dumps E req of
             Inl e \<Rightarrow> Inl e
           | Inr payload \<Rightarrow>
               (case send_result out of
                  Some e \<Rightarrow> Inl e
                | None \<Rightarrow>
                    (case recv_loop (recv_results out) [] of
                       Inl e \<Rightarrow> Inl e
                     | Inr data \<Rightarrow> loads E data))))"

text \<open>The two \<^verbatim>\<open>except\<close> clauses: the flag is cleared and the exception replaced.\<close>

definition handler :: "client \<Rightarrow> exn \<Rightarrow> error" where
  "handler c e =
     (if caught_as_connection e then ConnectionError (host c) (port c)
      else RuntimeError e)"

text \<open>
  \<^verbatim>\<open>_send_command\<close>. It returns the response or the error raised, the client object and
  the world after the call, in which the call is logged.
\<close>

definition send_command ::
  "env \<Rightarrow> client \<Rightarrow> world \<Rightarrow> string \<Rightarrow> pyval \<Rightarrow> (error + pyval) \<times> client \<times> world" where
  "send_command E c w command params =
     (let req = envelope command params;
          out = net E (calls w) (host c) (port c) req;
          res = (case exchange E out req of
                   Inr response \<Rightarrow> Inr response
                 | Inl e \<Rightarrow> Inl (handler c e));
          c' = (case exchange E out req of
                  Inr response \<Rightarrow> c\<lparr>connected := True\<rparr>
                | Inl e \<Rightarrow> c\<lparr>connected := False\<rparr>)
      in (res, c',
          w\<lparr>clock := clock w + latency out,
            calls := calls w @ [\<lparr>started = clock w, finished = clock w + latency out,
                                        request = req, answer = res\<rparr>]\<rparr>))"

definition is_connected :: "client \<Rightarrow> bool" where
  "is_connected c = connected c"

subsection \<open>Player control methods\<close>

definition play :: "env \<Rightarrow> client \<Rightarrow> world \<Rightarrow> (error + pyval) \<times> client \<times> world" where
  "play E c w = send_command E c w ''play'' PNone"

definition pause :: "env \<Rightarrow> client \<Rightarrow> world \<Rightarrow> (error + pyval) \<times> client \<times> world" where
  "pause E c w = send_command E c w ''pause'' PNone"

definition stop :: "env \<Rightarrow> client \<Rightarrow> world \<Rightarrow> (error + pyval) \<times> client \<times> world" where
  "stop E c w = send_command E c w ''stop'' PNone"

definition next_track :: "env \<Rightarrow> client \<Rightarrow> world \<Rightarrow> (error + pyval) \<times> client \<times> world" where
  "next_track E c w = send_command E c w ''next'' PNone"

definition previous_track :: "env \<Rightarrow> client \<Rightarrow> world \<Rightarrow> (error + pyval) \<times> client \<times> world" where
  "previous_track E c w = send_command E c w ''prev'' PNone"

text \<open>\<^verbatim>\<open>set_volume\<close>: the range check comes before the call.\<close>

definition set_volume ::
  "env \<Rightarrow> client \<Rightarrow> world \<Rightarrow> int \<Rightarrow> (error + pyval) \<times> client \<times> world" where
  "set_volume E c w volume =
     (if \<not> (0 \<le> volume \<and> volume \<le> 100) then (Inl ValueError, c, w)
      else send_command E c w ''set_volume'' (PDict [(PStr ''volume'', PInt volume)]))"

text \<open>\<^verbatim>\<open>load_playlist\<close>: \<^verbatim>\<open>files\<close> enters the parameters when it is true as a condition.\<close>

definition load_playlist ::
  "env \<Rightarrow> client \<Rightarrow> world \<Rightarrow> pyval \<Rightarrow> (error + pyval) \<times> client \<times> world" where
  "load_playlist E c w files =
     (let params = (if truthy files then [(PStr ''files'', files)] else [])
      in send_command E c w ''load_playlist'' (PDict params))"

definition download ::
  "env \<Rightarrow> client \<Rightarrow> world \<Rightarrow> string \<Rightarrow> (error + pyval) \<times> client \<times> world" where
  "download E c w url = send_command E c w ''download'' (PDict [(PStr ''url'', PStr url)])"

definition get_status :: "env \<Rightarrow> client \<Rightarrow> world \<Rightarrow> (error + pyval) \<times> client \<times> world" where
  "get_status E c w = send_command E c w ''get_status'' PNone"

definition get_playlist :: "env \<Rightarrow> client \<Rightarrow> world \<Rightarrow> (error + pyval) \<times> client \<times> world" where
  "get_playlist E c w = send_command E c w ''get_playlist'' PNone"

definition set_position ::
  "env \<Rightarrow> client \<Rightarrow> world \<Rightarrow> pyval \<Rightarrow> (error + pyval) \<times> client \<times> world" where
  "set_position E c w position =
     send_command E c w ''set_position'' (PDict [(PStr ''position'', position)])"

definition toggle_loop :: "env \<Rightarrow> client \<Rightarrow> world \<Rightarrow> (error + pyval) \<times> client \<times> world" where
  "toggle_loop E c w = send_command E c w ''toggle_loop'' PNone"

definition convert_files ::
  "env \<Rightarrow> client \<Rightarrow> world \<Rightarrow> pyval \<Rightarrow> string \<Rightarrow> (error + pyval) \<times> client \<times> world" where
  "convert_files E c w files mode =
     send_command E c w ''convert_files''
       (PDict [(PStr ''files'', files), (PStr ''mode'', PStr mode)])"

subsection \<open>Convenience methods\<close>

text \<open>
  \<^verbatim>\<open>obj.get(key, default)\<close>: a dictionary answers with the value of the key or the
  default; any other object of the fragment has no \<^verbatim>\<open>get\<close> and the call raises
  \<^verbatim>\<open>AttributeError\<close>.
\<close>

definition py_get :: "pyval \<Rightarrow> string \<Rightarrow> pyval \<Rightarrow> error + pyval" where
  "py_get obj key dflt =
     (case obj of
        PDict kvs \<Rightarrow> (case map_of kvs (PStr key) of Some v \<Rightarrow> Inr v | None \<Rightarrow> Inr dflt)
      | _ \<Rightarrow> Inl AttributeError)"

text \<open>
  \<^verbatim>\<open>play_url\<close>: download; if the download reports success, sleep a second and ask for
  the status; if that reports success and \<^verbatim>\<open>is_playing\<close> is not true, play. In every
  other case the download's result is returned. An exception of a call, or of a
  \<^verbatim>\<open>get\<close>, leaves the method at once.
\<close>

definition play_url ::
  "env \<Rightarrow> client \<Rightarrow> world \<Rightarrow> string \<Rightarrow> (error + pyval) \<times> client \<times> world" where
  "play_url E c w url =
     (case download E c w url of
        (Inl err, c1, w1) \<Rightarrow> (Inl err, c1, w1)
      | (Inr result, c1, w1) \<Rightarrow>
          (case py_get result ''status'' PNone of
             Inl err \<Rightarrow> (Inl err, c1, w1)
           | Inr s \<Rightarrow>
               if s = PStr ''success'' then
                 (case get_status E c1 (sleep E w1 1) of
                    (Inl err, c2, w2) \<Rightarrow> (Inl err, c2, w2)
                  | (Inr status, c2, w2) \<Rightarrow>
                      (case py_get status ''status'' PNone of
                         Inl err \<Rightarrow> (Inl err, c2, w2)
                       | Inr s2 \<Rightarrow>
                           if s2 = PStr ''success'' then
                             (case py_get status ''data'' (PDict []) of
                                Inl err \<Rightarrow> (Inl err, c2, w2)
                              | Inr d \<Rightarrow>
                                  (case py_get d ''is_playing'' PNone of
                                     Inl err \<Rightarrow> (Inl err, c2, w2)
                                   | Inr p \<Rightarrow>
                                       if \<not> truthy p then play E c2 w2
                                       else (Inr result, c2, w2)))
                           else (Inr result, c2, w2)))
               else (Inr result, c1, w1)))"

definition add_to_queue ::
  "env \<Rightarrow> client \<Rightarrow> world \<Rightarrow> string \<Rightarrow> (error + pyval) \<times> client \<times> world" where
  "add_to_queue E c w url = download E c w url"

text \<open>\<^verbatim>\<open>get_current_track_info\<close>: the \<^verbatim>\<open>data\<close> of a successful status, else \<^verbatim>\<open>None\<close>.\<close>

definition get_current_track_info ::
  "env \<Rightarrow> client \<Rightarrow> world \<Rightarrow> (error + pyval) \<times> client \<times> world" where
  "get_current_track_info E c w =
     (case get_status E c w of
        (Inl err, c1, w1) \<Rightarrow> (Inl err, c1, w1)
      | (Inr status, c1, w1) \<Rightarrow>
          (case py_get status ''status'' PNone of
             Inl err \<Rightarrow> (Inl err, c1, w1)
           | Inr s \<Rightarrow>
               if s = PStr ''success'' then
                 (case py_get status ''data'' PNone of
                    Inl err \<Rightarrow> (Inl err, c1, w1)
                  | Inr d \<Rightarrow> (Inr d, c1, w1))
               else (Inr PNone, c1, w1)))"

text \<open>A call never sets the clock back.\<close>

lemma clock_send_command:
  "clock w \<le> clock (snd (snd (send_command E c w command params)))"
  by (simp add: send_command_def Let_def)

lemma clock_get_status:
  "(r, c1, w1) = get_status E c w \<Longrightarrow> clock w \<le> clock w1"
  using clock_send_command [of w E c "''get_status''" PNone]
  by (simp add: get_status_def split: prod.splits) (metis snd_conv)

text \<open>
  The loop of \<^verbatim>\<open>wait_for_download\<close>: while less than \<^verbatim>\<open>timeout\<close> seconds have passed
  since \<^verbatim>\<open>start_time\<close>, ask for the status; sleep a second and go on when it reports
  success, return \<^verbatim>\<open>True\<close> when it reports anything else. Out of time, return \<^verbatim>\<open>False\<close>.
  Every round that goes on moves the clock by a second at least, so the loop ends.
\<close>

function wait_loop ::
  "env \<Rightarrow> client \<Rightarrow> world \<Rightarrow> nat \<Rightarrow> int \<Rightarrow> (error + pyval) \<times> client \<times> world" where
  "wait_loop E c w start_time tmo =
     (if int (clock w) - int start_time < tmo * int second then
        (case get_status E c w of
           (Inl err, c1, w1) \<Rightarrow> (Inl err, c1, w1)
         | (Inr status, c1, w1) \<Rightarrow>
             (case py_get status ''status'' PNone of
                Inl err \<Rightarrow> (Inl err, c1, w1)
              | Inr s \<Rightarrow>
                  if s = PStr ''success'' then wait_loop E c1 (sleep E w1 1) start_time tmo
                  else (Inr (PBool True), c1, w1)))
      else (Inr (PBool False), c, w))"
  by pat_completeness auto
termination
  by (relation "measure (\<lambda>(E, c, w, start_time, tmo).
                   nat (tmo * int second - (int (clock w) - int start_time)))")
     (auto dest!: clock_get_status simp: sleep_def second_def)

declare wait_loop.simps [simp del]

definition wait_for_download ::
  "env \<Rightarrow> client \<Rightarrow> world \<Rightarrow> int \<Rightarrow> (error + pyval) \<times> client \<times> world" where
  "wait_for_download E c w tmo = wait_loop E c w (clock w) tmo"

subsection \<open>Every operation\<close>

text \<open>The public methods with their arguments, to speak of every operation at once.\<close>

datatype operation =
    Play
  | Pause
  | Stop
  | NextTrack
  | PreviousTrack
  | SetVolume int
  | LoadPlaylist pyval
  | Download string
  | GetStatus
  | GetPlaylist
  | SetPosition pyval
  | ToggleLoop
  | ConvertFiles pyval string
  | PlayUrl string
  | AddToQueue string
  | GetCurrentTrackInfo
  | WaitForDownload int

fun invoke ::
  "env \<Rightarrow> client \<Rightarrow> world \<Rightarrow> operation \<Rightarrow> (error + pyval) \<times> client \<times> world" where
  "invoke E c w Play = play E c w"
| "invoke E c w Pause = pause E c w"
| "invoke E c w Stop = stop E c w"
| "invoke E c w NextTrack = next_track E c w"
| "invoke E c w PreviousTrack = previous_track E c w"
| "invoke E c w (SetVolume volume) = set_volume E c w volume"
| "invoke E c w (LoadPlaylist files) = load_playlist E c w files"
| "invoke E c w (Download url) = download E c w url"
| "invoke E c w GetStatus = get_status E c w"
| "invoke E c w GetPlaylist = get_playlist E c w"
| "invoke E c w (SetPosition position) = set_position E c w position"
| "invoke E c w ToggleLoop = toggle_loop E c w"
| "invoke E c w (ConvertFiles files mode) = convert_files E c w files mode"
| "invoke E c w (PlayUrl url) = play_url E c w url"
| "invoke E c w (AddToQueue url) = add_to_queue E c w url"
| "invoke E c w GetCurrentTrackInfo = get_current_track_info E c w"
| "invoke E c w (WaitForDownload tmo) = wait_for_download E c w tmo"

text \<open>The calls that the log gained from one world to a later one.\<close>

definition calls_since :: "world \<Rightarrow> world \<Rightarrow> entry list" where
  "calls_since w w' = drop (length (calls w)) (calls w')"

text \<open>
  What a response tells, read as the methods read it: its \<^verbatim>\<open>status\<close> (\<^verbatim>\<open>None\<close> when the
  key is missing), its \<^verbatim>\<open>data\<close>, and whether \<^verbatim>\<open>is_playing\<close> in its data is true. A
  response that is no dictionary tells nothing: the \<^verbatim>\<open>get\<close> raises.
\<close>

definition status_of :: "pyval \<Rightarrow> pyval option" where
  "status_of response =
     (case py_get response ''status'' PNone of Inr s \<Rightarrow> Some s | Inl err \<Rightarrow> None)"

definition data_of :: "pyval \<Rightarrow> pyval option" where
  "data_of response =
     (case py_get response ''data'' PNone of Inr d \<Rightarrow> Some d | Inl err \<Rightarrow> None)"

definition playing :: "pyval \<Rightarrow> bool option" where
  "playing response =
     (case py_get response ''data'' (PDict []) of
        Inl err \<Rightarrow> None
      | Inr d \<Rightarrow>
          (case py_get d ''is_playing'' PNone of
             Inl err \<Rightarrow> None
           | Inr p \<Rightarrow> Some (truthy p)))"

text \<open>The status that a logged call reported; a call that raised reported none.\<close>

definition reported_status :: "entry \<Rightarrow> pyval option" where
  "reported_status e =
     (case answer e of Inr response \<Rightarrow> status_of response | Inl err \<Rightarrow> None)"

text \<open>Start times that lie a second apart at least, each from the one before.\<close>

fun spaced :: "nat list \<Rightarrow> bool" where
  "spaced (t # u # ts) = (t + second \<le> u \<and> spaced (u # ts))"
| "spaced ts = True"

text \<open>
  The flag follows the calls: the log only grows, and the flag after an operation is the
  flag before it when no call was made, and tells whether the last call returned
  otherwise.
\<close>

definition tracks :: "client \<Rightarrow> world \<Rightarrow> (error + pyval) \<times> client \<times> world \<Rightarrow> bool" where
  "tracks c w x =
     (take (length (calls w)) (calls (snd (snd x))) = calls w \<and>
      connected (fst (snd x)) =
        (if length (calls (snd (snd x))) = length (calls w) then connected c
         else \<not> isl (answer (last (calls (snd (snd x)))))))"

text \<open>
  The polls of \<^verbatim>\<open>wait_for_download\<close>, seen from a world \<open>w\<close>: every one asks for the
  status, they start a second apart at least, there are no more of them than the time
  left has seconds (begun ones counted), the result is \<^verbatim>\<open>False\<close> when all of them reported
  success, and a poll that reported another status is the last one and makes the result
  \<^verbatim>\<open>True\<close>.
\<close>

definition polls :: "world \<Rightarrow> nat \<Rightarrow> int \<Rightarrow> error + pyval \<Rightarrow> entry list \<Rightarrow> bool" where
  "polls w start_time tmo r new =
     ((\<forall>e\<in>set new. request e = envelope ''get_status'' PNone \<and> clock w \<le> started e) \<and>
      spaced (map started new) \<and>
      (new = [] \<or>
       int (length new) * int second
         < tmo * int second - (int (clock w) - int start_time) + int second) \<and>
      ((\<forall>e\<in>set new. reported_status e = Some (PStr ''success'')) \<longrightarrow> r = Inr (PBool False)) \<and>
      (\<forall>i<length new.
         reported_status (new ! i) \<noteq> None \<and>
         reported_status (new ! i) \<noteq> Some (PStr ''success'') \<longrightarrow>
           Suc i = length new \<and> r = Inr (PBool True)))"

text \<open>
  Polls that follow one another with one \<^verbatim>\<open>time.sleep(1)\<close> between them: each starts
  when the one before has returned and the sleep after it is over.
\<close>

fun paced :: "env \<Rightarrow> entry list \<Rightarrow> bool" where
  "paced E (e # e' # es) =
     (started e' = finished e + second + oversleep E (finished e) \<and> paced E (e' # es))"
| "paced E es = True"

text \<open>
  The pace of \<^verbatim>\<open>wait_for_download\<close>, seen from a world \<open>w\<close>, with the clock \<open>fin\<close> at
  the end: every poll starts before the time is out; while time is left there is a
  poll, and the first one starts at once; the polls follow one another with one sleep
  between them; the result is \<^verbatim>\<open>False\<close> only when the time is out and every poll
  reported success, and \<^verbatim>\<open>True\<close> only when the last poll reported another status; and
  the method returns after the sleep that follows the last poll when the result is
  \<^verbatim>\<open>False\<close>, and with the last poll otherwise.
\<close>

definition paces ::
  "env \<Rightarrow> world \<Rightarrow> nat \<Rightarrow> int \<Rightarrow> error + pyval \<Rightarrow> nat \<Rightarrow> entry list \<Rightarrow> bool" where
  "paces E w start_time tmo r fin new =
     ((\<forall>e\<in>set new. int (started e) - int start_time < tmo * int second) \<and>
      (int (clock w) - int start_time < tmo * int second \<longrightarrow> new \<noteq> []) \<and>
      (new \<noteq> [] \<longrightarrow> started (hd new) = clock w) \<and>
      paced E new \<and>
      (r = Inr (PBool False) \<longrightarrow>
         tmo * int second \<le> int fin - int start_time \<and>
         (\<forall>e\<in>set new. reported_status e = Some (PStr ''success''))) \<and>
      (r = Inr (PBool True) \<longrightarrow>
         new \<noteq> [] \<and> reported_status (last new) \<noteq> None \<and>
         reported_status (last new) \<noteq> Some (PStr ''success'')) \<and>
      (new = [] \<longrightarrow> r = Inr (PBool False)) \<and>
      fin = (if new = [] then clock w
             else if r = Inr (PBool False)
             then finished (last new) + second + oversleep E (finished (last new))
             else finished (last new)))"

section \<open>Concrete peers\<close>

text \<open>
  A table codec and a few peers on which the definitions are evaluated. The codec maps
  single bytes to the responses the peers send; every other byte string is malformed.
\<close>

definition ok_response :: pyval where
  "ok_response = PDict [(PStr ''status'', PStr ''success'')]"

definition idle_response :: pyval where
  "idle_response =
     PDict [(PStr ''status'', PStr ''success''),
            (PStr ''data'', PDict [(PStr ''is_playing'', PBool False)])]"

definition busy_response :: pyval where
  "busy_response =
     PDict [(PStr ''status'', PStr ''success''),
            (PStr ''data'', PDict [(PStr ''is_playing'', PBool True)])]"

definition error_response :: pyval where
  "error_response =
     PDict [(PStr ''status'', PStr ''error''),
            (PStr ''data'', PDict [(PStr ''is_playing'', PBool False)])]"

definition started_response :: pyval where
  "started_response =
     PDict [(PStr ''status'', PStr ''success''), (PStr ''data'', PStr ''playing'')]"

definition table_loads :: "bytes \<Rightarrow> exn + pyval" where
  "table_loads bs =
     (if bs = [] then Inl EOFError
      else if bs = [0] then Inr ok_response
      else if bs = [1] then Inr idle_response
      else if bs = [2] then Inr busy_response
      else if bs = [3] then Inr error_response
      else if bs = [4] then Inr started_response
      else Inl UnpicklingError)"

definition table_dumps :: "pyval \<Rightarrow> exn + bytes" where
  "table_dumps v = Inr []"

definition replying :: "bytes \<Rightarrow> outcome" where
  "replying bs =
     \<lparr>connect_result = None, send_result = None, recv_results = Chunk bs Eof, latency = 0\<rparr>"

definition peer_of :: "(entry list \<Rightarrow> pyval \<Rightarrow> outcome) \<Rightarrow> env" where
  "peer_of f =
     \<lparr>dumps = table_dumps, loads = table_loads,
      net = (\<lambda>h a p r. f h r), oversleep = (\<lambda>t. 0)\<rparr>"

text \<open>A peer that answers every request with \<^verbatim>\<open>{'status': 'success'}\<close> and closes.\<close>

definition ok_peer :: env where
  "ok_peer = peer_of (\<lambda>h r. replying [0])"

text \<open>A peer that is not there, one that resets the connection, one that sends garbage.\<close>

definition refusing_peer :: env where
  "refusing_peer =
     peer_of (\<lambda>h r. \<lparr>connect_result = Some ConnectionRefusedError, send_result = None,
                      recv_results = Eof, latency = 0\<rparr>)"

definition resetting_peer :: env where
  "resetting_peer =
     peer_of (\<lambda>h r. \<lparr>connect_result = None, send_result = None,
                      recv_results = Raises ConnectionResetError, latency = 0\<rparr>)"

definition garbage_peer :: env where
  "garbage_peer = peer_of (\<lambda>h r. replying [9])"

text \<open>
  Peers that answer by command: \<^verbatim>\<open>download\<close> succeeds, \<^verbatim>\<open>play\<close> reports that playback
  started, and \<^verbatim>\<open>get_status\<close> is answered with the given byte.
\<close>

definition by_command :: "8 word \<Rightarrow> pyval \<Rightarrow> outcome" where
  "by_command b r =
     (if map_of (case r of PDict kvs \<Rightarrow> kvs | _ \<Rightarrow> []) (PStr ''command'') = Some (PStr ''get_status'')
      then replying [b]
      else if map_of (case r of PDict kvs \<Rightarrow> kvs | _ \<Rightarrow> []) (PStr ''command'') = Some (PStr ''play'')
      then replying [4]
      else replying [0])"

definition idle_peer :: env where
  "idle_peer = peer_of (\<lambda>h r. by_command 1 r)"

definition busy_peer :: env where
  "busy_peer = peer_of (\<lambda>h r. by_command 2 r)"

definition no_status_peer :: env where
  "no_status_peer = peer_of (\<lambda>h r. by_command 3 r)"

text \<open>A peer that answers every request with the status \<^verbatim>\<open>'error'\<close>.\<close>

definition error_peer :: env where
  "error_peer = peer_of (\<lambda>h r. replying [3])"

text \<open>A peer whose first answer is a success and whose later answers are errors.\<close>

definition failing_later_peer :: env where
  "failing_later_peer = peer_of (\<lambda>h r. if h = [] then replying [0] else replying [3])"

definition client0 :: client where
  "client0 = init ''localhost'' 65432 5"

definition world0 :: world where
  "world0 = \<lparr>clock = 0, calls = []\<rparr>"

section \<open>The transport and the kinds of its failures\<close>

lemma send_command_result:
  "fst (send_command E c w command params) =
     (case exchange E (net E (calls w) (host c) (port c) (envelope command params))
             (envelope command params) of
        Inr response \<Rightarrow> Inr response
      | Inl e \<Rightarrow> Inl (handler c e))"
  by (simp add: send_command_def Let_def)

lemma send_command_connected:
  "connected (fst (snd (send_command E c w command params))) =
     (\<not> isl (fst (send_command E c w command params)))"
  by (simp add: send_command_def Let_def split: sum.splits)

lemma send_command_calls:
  "calls (snd (snd (send_command E c w command params))) =
     calls w @ [\<lparr>started = clock w, finished = clock (snd (snd (send_command E c w command params))),
                        request = envelope command params,
                 answer = fst (send_command E c w command params)\<rparr>]"
  by (simp add: send_command_def Let_def)

text \<open>
  C1, as amended. Let \<open>e\<close> be the first exception of a call: raised by connecting, by
  serializing the request, by sending, by receiving, or by deserializing the bytes
  received. When \<open>e\<close> is a socket timeout or of the class \<^verbatim>\<open>ConnectionError\<close> (refused,
  reset, aborted, broken pipe), at whichever of these stages, the call raises
  \<^verbatim>\<open>ConnectionError\<close> with the host and port of the client. Every other \<open>e\<close> is raised
  again wrapped in a \<^verbatim>\<open>RuntimeError\<close>. In both cases the flag is cleared.
\<close>

theorem send_command_failure_kinds:
  assumes out: "out = net E (calls w) (host c) (port c) req"
    and req: "req = envelope command params"
    and stage:
      "connect_result out = Some e \<or>
       connect_result out = None \<and> dumps E req = Inl e \<or>
       connect_result out = None \<and> \<not> isl (dumps E req) \<and> send_result out = Some e \<or>
       connect_result out = None \<and> \<not> isl (dumps E req) \<and> send_result out = None \<and>
         recv_loop (recv_results out) [] = Inl e \<or>
       connect_result out = None \<and> \<not> isl (dumps E req) \<and> send_result out = None \<and>
         recv_loop (recv_results out) [] = Inr data \<and> loads E data = Inl e"
  shows "fst (send_command E c w command params) =
           (if e = SocketTimeout \<or> is_ConnectionError e
            then Inl (ConnectionError (host c) (port c)) else Inl (RuntimeError e)) \<and>
         \<not> connected (fst (snd (send_command E c w command params)))"
proof -
  have raised: "exchange E out req = Inl e"
    using stage by (auto simp: exchange_def split: sum.splits option.splits)
  have kind: "caught_as_connection e = (e = SocketTimeout \<or> is_ConnectionError e)"
    by (cases e) (simp_all add: caught_as_connection_def)
  have "fst (send_command E c w command params) = Inl (handler c e)"
    using raised out req by (simp add: send_command_result)
  then show ?thesis
    using kind send_command_connected [of E c w command params]
    by (simp add: handler_def)
qed

text \<open>
  Malformed bytes end in a \<^verbatim>\<open>RuntimeError\<close> that wraps pickle's exception; a refused
  connection ends in a \<^verbatim>\<open>ConnectionError\<close> and clears a flag that was set.
\<close>

theorem send_command_failure_kinds_witness:
  "fst (send_command garbage_peer client0 world0 ''play'' PNone) = Inl (RuntimeError UnpicklingError) \<and>
   fst (send_command refusing_peer client0 world0 ''play'' PNone) =
     Inl (ConnectionError ''localhost'' 65432) \<and>
   connected (fst (snd (send_command refusing_peer (client0\<lparr>connected := True\<rparr>) world0
                          ''play'' PNone))) = False"
  using send_command_failure_kinds
      [of "replying [9]" garbage_peer world0 client0 "envelope ''play'' PNone" "''play''" PNone
          UnpicklingError "[9]"]
    send_command_failure_kinds
      [of "\<lparr>connect_result = Some ConnectionRefusedError, send_result = None,
            recv_results = Eof, latency = 0\<rparr>"
          refusing_peer world0 "client0\<lparr>connected := True\<rparr>" "envelope ''play'' PNone"
          "''play''" PNone ConnectionRefusedError "[]"]
    send_command_failure_kinds
      [of "\<lparr>connect_result = Some ConnectionRefusedError, send_result = None,
            recv_results = Eof, latency = 0\<rparr>"
          refusing_peer world0 client0 "envelope ''play'' PNone"
          "''play''" PNone ConnectionRefusedError "[]"]
  by (simp add: garbage_peer_def refusing_peer_def peer_of_def replying_def table_dumps_def
      table_loads_def client0_def init_def)

text \<open>
  C1 as stated fails: the peer accepts the connection and the request and resets the
  connection while the client receives. The failure is one of the receive stage, and
  the call raises \<^verbatim>\<open>ConnectionError\<close>, not \<^verbatim>\<open>RuntimeError\<close>.
\<close>

theorem peer_reset_counterexample:
  "connect_result (net resetting_peer (calls world0) (host client0) (port client0)
                     (envelope ''play'' PNone)) = None \<and>
   send_result (net resetting_peer (calls world0) (host client0) (port client0)
                  (envelope ''play'' PNone)) = None \<and>
   recv_loop (recv_results (net resetting_peer (calls world0) (host client0) (port client0)
                              (envelope ''play'' PNone))) [] = Inl ConnectionResetError \<and>
   fst (send_command resetting_peer client0 world0 ''play'' PNone) =
     Inl (ConnectionError ''localhost'' 65432)"
  by (simp add: resetting_peer_def peer_of_def send_command_def exchange_def table_dumps_def
      handler_def caught_as_connection_def client0_def init_def world0_def Let_def)

section \<open>The connection flag\<close>

lemma tracks_send_command: "tracks c w (send_command E c w command params)"
  by (simp add: tracks_def send_command_def Let_def split: sum.splits)

lemma tracks_send_command_eq:
  "send_command E c w command params = x \<Longrightarrow> tracks c w x"
  using tracks_send_command by blast

lemma tracks_same: "tracks c w (r, c, w)"
  by (simp add: tracks_def)

lemma tracks_result: "tracks c w (r, c', w') \<Longrightarrow> tracks c w (r', c', w')"
  by (simp add: tracks_def)

lemma take_length_le: "take n xs = ys \<Longrightarrow> length ys \<le> length xs"
  by auto

lemma take_all_eq: "take (length ys) xs = ys \<Longrightarrow> (length xs = length ys) = (xs = ys)"
  by auto

lemma calls_sleep: "calls (sleep E w n) = calls w"
  by (simp add: sleep_def)

text \<open>One operation after another: the flag follows the calls of both.\<close>

lemma tracks_trans:
  assumes "tracks c w (r1, c1, w1)" and "calls v = calls w1" and "tracks c1 v x"
  shows "tracks c w x"
proof -
  obtain r2 c2 w2 where x: "x = (r2, c2, w2)" by (cases x)
  have p1: "take (length (calls w)) (calls w1) = calls w"
    using assms(1) by (simp add: tracks_def)
  have p2: "take (length (calls w1)) (calls w2) = calls w1"
    using assms(2,3) x by (simp add: tracks_def)
  have len1: "length (calls w) \<le> length (calls w1)"
    using p1 by (rule take_length_le)
  have len2: "length (calls w1) \<le> length (calls w2)"
    using p2 by (rule take_length_le)
  have "take (length (calls w)) (take (length (calls w1)) (calls w2)) = calls w"
    using p1 p2 by simp
  then have p: "take (length (calls w)) (calls w2) = calls w"
    using len1 by (simp add: min_def)
  have f1: "connected c1 = (if length (calls w1) = length (calls w) then connected c
                            else \<not> isl (answer (last (calls w1))))"
    using assms(1) by (simp add: tracks_def)
  have f2: "connected c2 = (if length (calls w2) = length (calls w1) then connected c1
                            else \<not> isl (answer (last (calls w2))))"
    using assms(2,3) x by (simp add: tracks_def)
  have f: "connected c2 = (if length (calls w2) = length (calls w) then connected c
                           else \<not> isl (answer (last (calls w2))))"
  proof (cases "length (calls w2) = length (calls w1)")
    case True
    then have "calls w2 = calls w1" using p2 by simp
    then show ?thesis using f1 f2 by simp
  next
    case False
    then have "length (calls w2) \<noteq> length (calls w)" using len1 len2 by linarith
    then show ?thesis using f2 False by simp
  qed
  show ?thesis using p f x by (simp add: tracks_def)
qed

lemma tracks_play_url: "tracks c w (play_url E c w url)"
proof -
  obtain r1 c1 w1 where d: "download E c w url = (r1, c1, w1)"
    by (cases "download E c w url")
  have t1: "tracks c w (r1, c1, w1)"
    using d by (simp add: download_def tracks_send_command_eq)
  obtain r2 c2 w2 where s: "get_status E c1 (sleep E w1 1) = (r2, c2, w2)"
    by (cases "get_status E c1 (sleep E w1 1)")
  have t2: "tracks c w (r2, c2, w2)"
    using tracks_trans [OF t1 calls_sleep [of E w1 1], of "(r2, c2, w2)"] s
    by (simp add: get_status_def tracks_send_command_eq del: One_nat_def)
  have t3: "tracks c w (play E c2 w2)"
    using tracks_trans [OF t2 refl, of "play E c2 w2"]
    by (simp add: play_def tracks_send_command)
  show ?thesis
    using t3 tracks_result [OF t1] tracks_result [OF t2]
    by (simp add: play_url_def d s split: sum.splits del: One_nat_def)
qed

lemma tracks_get_current_track_info: "tracks c w (get_current_track_info E c w)"
proof -
  obtain r1 c1 w1 where s: "get_status E c w = (r1, c1, w1)"
    by (cases "get_status E c w")
  have t1: "tracks c w (r1, c1, w1)"
    using s by (simp add: get_status_def tracks_send_command_eq)
  show ?thesis
    using tracks_result [OF t1] by (simp add: get_current_track_info_def s split: sum.splits)
qed

lemma tracks_wait_loop: "tracks c w (wait_loop E c w start_time tmo)"
proof (induction E c w start_time tmo rule: wait_loop.induct)
  case (1 E c w start_time tmo)
  obtain r1 c1 w1 where s: "get_status E c w = (r1, c1, w1)"
    by (cases "get_status E c w")
  have t1: "tracks c w (r1, c1, w1)"
    using s by (simp add: get_status_def tracks_send_command_eq)
  note unfold = wait_loop.simps [of E c w start_time tmo]
  show ?case
  proof (cases "int (clock w) - int start_time < tmo * int second")
    case False
    then show ?thesis by (simp add: unfold tracks_same)
  next
    case True
    show ?thesis
    proof (cases r1)
      case (Inl err)
      then show ?thesis using True s t1 by (simp add: unfold)
    next
      case (Inr status)
      show ?thesis
      proof (cases "py_get status ''status'' PNone")
        case (Inl err)
        then show ?thesis using True s Inr tracks_result [OF t1] by (simp add: unfold)
      next
        case st: (Inr st)
        show ?thesis
        proof (cases "st = PStr ''success''")
          case False
          then show ?thesis using True s Inr st tracks_result [OF t1] by (simp add: unfold)
        next
          case succ: True
          have "tracks c1 (sleep E w1 1) (wait_loop E c1 (sleep E w1 1) start_time tmo)"
            using "1.IH" [OF True _ _ _ st succ] s Inr by (simp del: One_nat_def)
          then have "tracks c w (wait_loop E c1 (sleep E w1 1) start_time tmo)"
            using tracks_trans [OF t1 calls_sleep] by blast
          then show ?thesis using True s Inr st succ by (simp add: unfold del: One_nat_def)
        qed
      qed
    qed
  qed
qed

lemma tracks_invoke: "tracks c w (invoke E c w op)"
proof (cases op)
  case (SetVolume volume)
  then show ?thesis
    by (simp add: set_volume_def tracks_same tracks_send_command)
next
  case (PlayUrl url)
  then show ?thesis by (simp add: tracks_play_url)
next
  case GetCurrentTrackInfo
  then show ?thesis by (simp add: tracks_get_current_track_info)
next
  case (WaitForDownload tmo)
  then show ?thesis by (simp add: wait_for_download_def tracks_wait_loop)
qed (simp_all add: play_def pause_def stop_def next_track_def previous_track_def
      load_playlist_def download_def get_status_def get_playlist_def set_position_def
      toggle_loop_def convert_files_def add_to_queue_def tracks_send_command)

text \<open>
  C2, as amended. After a call of the transport the flag is true exactly when the round
  trip completed, and false when it failed. After any operation the flag tells whether
  the last call that the operation made completed its round trip; an operation that
  fails before any call (the volume check of \<^verbatim>\<open>set_volume\<close>) leaves the flag as it was.
\<close>

theorem flag_after_operation:
  "connected (fst (snd (send_command E c w command params))) =
     (\<not> isl (fst (send_command E c w command params))) \<and>
   connected (fst (snd (invoke E c w op))) =
     (if calls (snd (snd (invoke E c w op))) = calls w then connected c
      else \<not> isl (answer (last (calls (snd (snd (invoke E c w op)))))))"
proof
  show "connected (fst (snd (send_command E c w command params))) =
     (\<not> isl (fst (send_command E c w command params)))"
    by (rule send_command_connected)
next
  have t: "tracks c w (invoke E c w op)" by (rule tracks_invoke)
  then have "take (length (calls w)) (calls (snd (snd (invoke E c w op)))) = calls w"
    by (simp add: tracks_def)
  then have "(length (calls (snd (snd (invoke E c w op)))) = length (calls w)) =
               (calls (snd (snd (invoke E c w op))) = calls w)"
    by (rule take_all_eq)
  then show "connected (fst (snd (invoke E c w op))) =
     (if calls (snd (snd (invoke E c w op))) = calls w then connected c
      else \<not> isl (answer (last (calls (snd (snd (invoke E c w op)))))))"
    using t by (simp add: tracks_def)
qed

theorem flag_after_operation_witness:
  "connected (fst (snd (invoke ok_peer client0 world0 GetStatus))) = True \<and>
   connected (fst (snd (invoke refusing_peer (client0\<lparr>connected := True\<rparr>) world0 GetStatus))) =
     False \<and>
   connected (fst (snd (invoke ok_peer client0 world0 (SetVolume 101)))) = False"
  using flag_after_operation [of ok_peer client0 world0 "''get_status''" PNone GetStatus]
    flag_after_operation [of refusing_peer "client0\<lparr>connected := True\<rparr>" world0
                             "''get_status''" PNone GetStatus]
    flag_after_operation [of ok_peer client0 world0 "''get_status''" PNone "SetVolume 101"]
  by (simp add: set_volume_def get_status_def send_command_def ok_peer_def refusing_peer_def
      peer_of_def replying_def exchange_def table_dumps_def table_loads_def Let_def
      handler_def client0_def init_def world0_def)

text \<open>
  C2 as stated fails: after a successful \<^verbatim>\<open>get_status\<close> the flag is true, and a
  \<^verbatim>\<open>set_volume(101)\<close> that fails with \<^verbatim>\<open>ValueError\<close> leaves it true.
\<close>

theorem local_failure_keeps_flag_counterexample:
  "fst (set_volume ok_peer (fst (snd (get_status ok_peer client0 world0)))
          (snd (snd (get_status ok_peer client0 world0))) 101) = Inl ValueError \<and>
   connected (fst (snd (set_volume ok_peer (fst (snd (get_status ok_peer client0 world0)))
                          (snd (snd (get_status ok_peer client0 world0))) 101))) = True"
  by (simp add: set_volume_def get_status_def send_command_def ok_peer_def peer_of_def
      replying_def exchange_def table_dumps_def table_loads_def Let_def)

lemma send_command_flag_irrelevant:
  "send_command E (c\<lparr>connected := b\<rparr>) w command params = send_command E c w command params"
  by (simp add: send_command_def Let_def handler_def split: sum.splits)

lemma get_status_flag_irrelevant:
  "get_status E (c\<lparr>connected := b\<rparr>) w = get_status E c w"
  by (simp add: get_status_def send_command_flag_irrelevant)

lemma wait_loop_flag_irrelevant:
  "fst (wait_loop E (c\<lparr>connected := b\<rparr>) w s t) = fst (wait_loop E c w s t) \<and>
   snd (snd (wait_loop E (c\<lparr>connected := b\<rparr>) w s t)) = snd (snd (wait_loop E c w s t))"
  by (simp add: wait_loop.simps [of E "c\<lparr>connected := b\<rparr>" w s t]
      wait_loop.simps [of E c w s t] get_status_flag_irrelevant)

text \<open>
  C9. Two runs of an operation that differ only in the flag before it return the same
  result and leave the same world: the same calls with the same requests and answers,
  at the same times.
\<close>

theorem flag_is_observational:
  "fst (invoke E (c\<lparr>connected := b\<rparr>) w op) = fst (invoke E c w op) \<and>
   snd (snd (invoke E (c\<lparr>connected := b\<rparr>) w op)) = snd (snd (invoke E c w op))"
proof (cases op)
  case (SetVolume volume)
  then show ?thesis by (simp add: set_volume_def send_command_flag_irrelevant)
next
  case (WaitForDownload tmo)
  then show ?thesis by (simp add: wait_for_download_def wait_loop_flag_irrelevant)
qed (simp_all add: play_def pause_def stop_def next_track_def previous_track_def
      load_playlist_def download_def get_status_def get_playlist_def set_position_def
      toggle_loop_def convert_files_def add_to_queue_def play_url_def
      get_current_track_info_def send_command_flag_irrelevant)

theorem flag_is_observational_witness:
  "fst (invoke ok_peer (client0\<lparr>connected := True\<rparr>) world0 (PlayUrl ''u'')) =
     fst (invoke ok_peer client0 world0 (PlayUrl ''u'')) \<and>
   map request (calls (snd (snd (invoke ok_peer (client0\<lparr>connected := True\<rparr>) world0
                                   (PlayUrl ''u''))))) =
     map request (calls (snd (snd (invoke ok_peer client0 world0 (PlayUrl ''u'')))))"
  using flag_is_observational [of ok_peer True client0 world0 "PlayUrl ''u''"]
  by simp

section \<open>The requests of an operation\<close>

lemma calls_since_send_command:
  "send_command E c w command params = (r, c', w') \<Longrightarrow>
     calls w' = calls w @ [\<lparr>started = clock w, finished = clock w',
                                   request = envelope command params, answer = r\<rparr>]"
  using send_command_calls [of E c w command params] by simp

lemma requests_since_append:
  "calls w' = calls w @ new \<Longrightarrow> map request (calls_since w w') = map request new"
  by (simp add: calls_since_def)

lemma download_calls:
  "download E c w url = (r, c1, w1) \<Longrightarrow>
     calls w1 = calls w @ [\<lparr>started = clock w, finished = clock w1,
                            request = envelope ''download'' (PDict [(PStr ''url'', PStr url)]),
                            answer = r\<rparr>]"
  by (simp add: download_def calls_since_send_command)

lemma get_status_calls:
  "get_status E c w = (r, c1, w1) \<Longrightarrow>
     calls w1 = calls w @ [\<lparr>started = clock w, finished = clock w1,
                                   request = envelope ''get_status'' PNone,
                            answer = r\<rparr>]"
  by (simp add: get_status_def calls_since_send_command)

lemma play_calls:
  "calls (snd (snd (play E c w))) =
     calls w @ [\<lparr>started = clock w, finished = clock (snd (snd (play E c w))),
                        request = envelope ''play'' PNone,
                 answer = fst (play E c w)\<rparr>]"
  by (simp add: play_def send_command_calls)

section \<open>The concrete peers, evaluated\<close>

lemma by_command_download:
  "download (peer_of (\<lambda>h. by_command b)) c w url =
     (Inr ok_response, c\<lparr>connected := True\<rparr>,
      w\<lparr>calls := calls w @ [\<lparr>started = clock w, finished = clock w,
            request = envelope ''download'' (PDict [(PStr ''url'', PStr url)]),
            answer = Inr ok_response\<rparr>]\<rparr>)"
  by (simp add: download_def send_command_def peer_of_def by_command_def envelope_def
      replying_def exchange_def table_dumps_def table_loads_def Let_def)

lemma by_command_play:
  "play (peer_of (\<lambda>h. by_command b)) c w =
     (Inr started_response, c\<lparr>connected := True\<rparr>,
      w\<lparr>calls := calls w @ [\<lparr>started = clock w, finished = clock w,
                                           request = envelope ''play'' PNone,
            answer = Inr started_response\<rparr>]\<rparr>)"
  by (simp add: play_def send_command_def peer_of_def by_command_def envelope_def
      replying_def exchange_def table_dumps_def table_loads_def Let_def)

lemma by_command_get_status:
  "get_status (peer_of (\<lambda>h. by_command b)) c w =
     (case table_loads [b] of Inr v \<Rightarrow> Inr v | Inl e \<Rightarrow> Inl (handler c e),
      c\<lparr>connected := \<not> isl (table_loads [b])\<rparr>,
      w\<lparr>calls := calls w @ [\<lparr>started = clock w, finished = clock w,
                                           request = envelope ''get_status'' PNone,
            answer = (case table_loads [b] of Inr v \<Rightarrow> Inr v | Inl e \<Rightarrow> Inl (handler c e))\<rparr>]\<rparr>)"
  by (simp add: get_status_def send_command_def peer_of_def by_command_def envelope_def
      replying_def exchange_def table_dumps_def Let_def split: sum.splits)

lemma idle_peer_get_status:
  "get_status idle_peer c w =
     (Inr idle_response, c\<lparr>connected := True\<rparr>,
      w\<lparr>calls := calls w @ [\<lparr>started = clock w, finished = clock w,
                                           request = envelope ''get_status'' PNone,
            answer = Inr idle_response\<rparr>]\<rparr>)"
  by (simp add: idle_peer_def by_command_get_status table_loads_def)

lemma no_status_peer_get_status:
  "get_status no_status_peer c w =
     (Inr error_response, c\<lparr>connected := True\<rparr>,
      w\<lparr>calls := calls w @ [\<lparr>started = clock w, finished = clock w,
                                           request = envelope ''get_status'' PNone,
            answer = Inr error_response\<rparr>]\<rparr>)"
  by (simp add: no_status_peer_def by_command_get_status table_loads_def)

lemma busy_peer_get_status:
  "get_status busy_peer c w =
     (Inr busy_response, c\<lparr>connected := True\<rparr>,
      w\<lparr>calls := calls w @ [\<lparr>started = clock w, finished = clock w,
            request = envelope ''get_status'' PNone, answer = Inr busy_response\<rparr>]\<rparr>)"
  by (simp add: busy_peer_def by_command_get_status table_loads_def)

lemma error_peer_download:
  "download error_peer c w url =
     (Inr error_response, c\<lparr>connected := True\<rparr>,
      w\<lparr>calls := calls w @ [\<lparr>started = clock w, finished = clock w,
            request = envelope ''download'' (PDict [(PStr ''url'', PStr url)]),
            answer = Inr error_response\<rparr>]\<rparr>)"
  by (simp add: download_def send_command_def error_peer_def peer_of_def
      replying_def exchange_def table_dumps_def table_loads_def Let_def)

lemma calls_world0: "calls world0 = []"
  by (simp add: world0_def)

lemma status_of_responses:
  "status_of ok_response = Some (PStr ''success'')"
  "status_of idle_response = Some (PStr ''success'')"
  "status_of busy_response = Some (PStr ''success'')"
  "status_of error_response = Some (PStr ''error'')"
  "playing idle_response = Some False"
  "playing busy_response = Some True"
  "playing error_response = Some False"
  by (simp_all add: status_of_def playing_def py_get_def ok_response_def idle_response_def
      busy_response_def error_response_def)

lemma ok_peer_get_status:
  "get_status ok_peer c w =
     (Inr ok_response, c\<lparr>connected := True\<rparr>,
      w\<lparr>calls := calls w @ [\<lparr>started = clock w, finished = clock w,
                                           request = envelope ''get_status'' PNone,
            answer = Inr ok_response\<rparr>]\<rparr>)"
  by (simp add: get_status_def send_command_def ok_peer_def peer_of_def
      replying_def exchange_def table_dumps_def table_loads_def Let_def)

lemma ok_peer_sleep: "sleep ok_peer w 1 = w\<lparr>clock := clock w + second\<rparr>"
  by (simp add: sleep_def ok_peer_def peer_of_def)

lemma py_get_ok: "py_get ok_response ''status'' PNone = Inr (PStr ''success'')"
  by (simp add: py_get_def ok_response_def)

section \<open>The volume check\<close>

text \<open>
  C3. For a volume from 0 to 100, \<^verbatim>\<open>set_volume\<close> makes exactly one call, whose request is
  the \<^verbatim>\<open>set_volume\<close> command with the parameters \<^verbatim>\<open>{'volume': volume}\<close>. For a volume
  outside the range it makes no call and raises \<^verbatim>\<open>ValueError\<close>.
\<close>

theorem set_volume_one_call_or_ValueError:
  "(0 \<le> volume \<and> volume \<le> 100 \<longrightarrow>
      (\<exists>e. calls (snd (snd (set_volume E c w volume))) = calls w @ [e] \<and>
           request e =
             PDict [(PStr ''command'', PStr ''set_volume''),
                    (PStr ''params'', PDict [(PStr ''volume'', PInt volume)])] \<and>
           answer e = fst (set_volume E c w volume))) \<and>
   (\<not> (0 \<le> volume \<and> volume \<le> 100) \<longrightarrow>
      fst (set_volume E c w volume) = Inl ValueError \<and>
      calls (snd (snd (set_volume E c w volume))) = calls w)"
  by (simp add: set_volume_def send_command_calls envelope_def)

theorem set_volume_one_call_or_ValueError_witness:
  "map request (calls (snd (snd (set_volume ok_peer client0 world0 80)))) =
     [PDict [(PStr ''command'', PStr ''set_volume''),
             (PStr ''params'', PDict [(PStr ''volume'', PInt 80)])]] \<and>
   fst (set_volume ok_peer client0 world0 101) = Inl ValueError \<and>
   calls (snd (snd (set_volume ok_peer client0 world0 101))) = calls world0"
  using set_volume_one_call_or_ValueError [of 80 ok_peer client0 world0]
    set_volume_one_call_or_ValueError [of 101 ok_peer client0 world0]
  by (auto simp: world0_def)

section \<open>Loading a playlist\<close>

text \<open>
  C8, as amended. \<^verbatim>\<open>load_playlist\<close> makes one call, of the command \<^verbatim>\<open>load_playlist\<close>. Its
  parameters hold \<^verbatim>\<open>files\<close> when the argument is given and true as a condition, as a
  list with an element is; they are empty when it is not given (\<^verbatim>\<open>None\<close>) and also when
  it is given but empty.
\<close>

theorem load_playlist_params:
  "map request (calls_since w (snd (snd (load_playlist E c w files)))) =
     [PDict [(PStr ''command'', PStr ''load_playlist''),
             (PStr ''params'', if truthy files then PDict [(PStr ''files'', files)] else PDict [])]]
   \<and> truthy (PList (f # fs)) \<and> \<not> truthy (PList []) \<and> \<not> truthy PNone"
  by (simp add: load_playlist_def calls_since_def send_command_calls envelope_def)

theorem load_playlist_params_witness:
  "map request (calls (snd (snd (load_playlist ok_peer client0 world0
                                   (PList [PStr ''a.mp3'']))))) =
     [PDict [(PStr ''command'', PStr ''load_playlist''),
             (PStr ''params'', PDict [(PStr ''files'', PList [PStr ''a.mp3''])])]] \<and>
   map request (calls (snd (snd (load_playlist ok_peer client0 world0 PNone)))) =
     [PDict [(PStr ''command'', PStr ''load_playlist''), (PStr ''params'', PDict [])]]"
  using load_playlist_params [of world0 ok_peer client0 "PList [PStr ''a.mp3'']"]
    load_playlist_params [of world0 ok_peer client0 PNone]
  by (simp add: calls_since_def world0_def)

text \<open>
  C8 as stated fails: for the empty list, given explicitly, the parameters of the call
  are empty and do not contain \<^verbatim>\<open>files\<close>.
\<close>

theorem load_playlist_empty_list_counterexample:
  "map request (calls (snd (snd (load_playlist ok_peer client0 world0 (PList []))))) =
     [PDict [(PStr ''command'', PStr ''load_playlist''), (PStr ''params'', PDict [])]]"
  by (simp add: load_playlist_def send_command_calls envelope_def world0_def)

section \<open>The current track\<close>

text \<open>
  C6. When \<^verbatim>\<open>get_status\<close> returns a response (a dictionary, so that it has a status \<open>s\<close>
  and a data field \<open>d\<close>, each \<^verbatim>\<open>None\<close> when its key is missing),
  \<^verbatim>\<open>get_current_track_info\<close> returns \<open>d\<close> if \<open>s\<close> is \<^verbatim>\<open>'success'\<close> and \<^verbatim>\<open>None\<close> otherwise.
\<close>

theorem get_current_track_info_data_or_None:
  assumes "get_status E c w = (Inr status, c1, w1)"
    and "status_of status = Some s" and "data_of status = Some d"
  shows "fst (get_current_track_info E c w) =
           (if s = PStr ''success'' then Inr d else Inr PNone)"
  using assms
  by (auto simp: get_current_track_info_def status_of_def data_of_def split: sum.splits)

theorem get_current_track_info_data_or_None_witness:
  "fst (get_current_track_info idle_peer client0 world0) =
     Inr (PDict [(PStr ''is_playing'', PBool False)]) \<and>
   fst (get_current_track_info no_status_peer client0 world0) = Inr PNone"
  using get_current_track_info_data_or_None
      [OF idle_peer_get_status [of client0 world0], of "PStr ''success''"
          "PDict [(PStr ''is_playing'', PBool False)]"]
    get_current_track_info_data_or_None
      [OF no_status_peer_get_status [of client0 world0], of "PStr ''error''"
          "PDict [(PStr ''is_playing'', PBool False)]"]
  by (simp add: status_of_def data_of_def py_get_def idle_response_def error_response_def)

section \<open>Download and play\<close>

lemma play_url_download_not_success:
  assumes "download E c w url = (Inr result, c1, w1)" and "status_of result = Some sd"
    and "sd \<noteq> PStr ''success''"
  shows "play_url E c w url = (Inr result, c1, w1)"
  using assms by (auto simp: play_url_def status_of_def split: sum.splits)

lemma play_url_status_not_success:
  assumes "download E c w url = (Inr result, c1, w1)"
    and "status_of result = Some (PStr ''success'')"
    and "get_status E c1 (sleep E w1 1) = (Inr status, c2, w2)"
    and "status_of status = Some ss" and "ss \<noteq> PStr ''success''"
  shows "play_url E c w url = (Inr result, c2, w2)"
  using assms by (auto simp: play_url_def status_of_def split: sum.splits simp del: One_nat_def)

lemma play_url_status_success:
  assumes "download E c w url = (Inr result, c1, w1)"
    and "status_of result = Some (PStr ''success'')"
    and "get_status E c1 (sleep E w1 1) = (Inr status, c2, w2)"
    and "status_of status = Some (PStr ''success'')" and "playing status = Some p"
  shows "play_url E c w url = (if p then (Inr result, c2, w2) else play E c2 w2)"
  using assms
  by (auto simp: play_url_def status_of_def playing_def split: sum.splits simp del: One_nat_def)

lemma two_calls:
  assumes "download E c w url = (r1, c1, w1)"
    and "get_status E c1 (sleep E w1 1) = (r2, c2, w2)"
  shows "calls w2 = calls w @
           [\<lparr>started = clock w, finished = clock w1,
             request = envelope ''download'' (PDict [(PStr ''url'', PStr url)]), answer = r1\<rparr>,
            \<lparr>started = clock (sleep E w1 1), finished = clock w2,
                    request = envelope ''get_status'' PNone,
             answer = r2\<rparr>]"
  using download_calls [OF assms(1)] get_status_calls [OF assms(2)]
  by (simp add: calls_sleep del: One_nat_def)

text \<open>
  C4, as amended. Let the download return a response with status \<open>sd\<close>. If \<open>sd\<close> is not
  \<^verbatim>\<open>'success'\<close>, \<^verbatim>\<open>play_url\<close> returns the download's result and the download is its only
  request, whatever a status query would have answered. If \<open>sd\<close> is \<^verbatim>\<open>'success'\<close> and the
  status query that follows returns a response whose status is not \<^verbatim>\<open>'success'\<close>, it
  returns the download's result after these two requests, whatever the data of that
  response. If both report success and the response tells whether the player is playing
  (\<open>p\<close>), it returns the download's result after the two requests when the player is
  playing already, and otherwise issues a \<^verbatim>\<open>play\<close> call as third request and returns the
  result of that call.
\<close>

theorem play_url_cases:
  assumes d: "download E c w url = (Inr result, c1, w1)" and sd: "status_of result = Some sd"
  shows "(sd \<noteq> PStr ''success'' \<longrightarrow>
            fst (play_url E c w url) = Inr result \<and>
            map request (calls_since w (snd (snd (play_url E c w url)))) =
              [envelope ''download'' (PDict [(PStr ''url'', PStr url)])]) \<and>
         (sd = PStr ''success'' \<and>
          get_status E c1 (sleep E w1 1) = (Inr status, c2, w2) \<and>
          status_of status = Some ss \<and> ss \<noteq> PStr ''success'' \<longrightarrow>
            fst (play_url E c w url) = Inr result \<and>
            map request (calls_since w (snd (snd (play_url E c w url)))) =
              [envelope ''download'' (PDict [(PStr ''url'', PStr url)]),
               envelope ''get_status'' PNone]) \<and>
         (sd = PStr ''success'' \<and>
          get_status E c1 (sleep E w1 1) = (Inr status, c2, w2) \<and>
          status_of status = Some (PStr ''success'') \<and> playing status = Some p \<longrightarrow>
            fst (play_url E c w url) = (if p then Inr result else fst (play E c2 w2)) \<and>
            map request (calls_since w (snd (snd (play_url E c w url)))) =
              (if p
               then [envelope ''download'' (PDict [(PStr ''url'', PStr url)]),
                     envelope ''get_status'' PNone]
               else [envelope ''download'' (PDict [(PStr ''url'', PStr url)]),
                     envelope ''get_status'' PNone, envelope ''play'' PNone]))"
proof (intro conjI impI)
  assume ne: "sd \<noteq> PStr ''success''"
  have eq: "play_url E c w url = (Inr result, c1, w1)"
    using play_url_download_not_success [OF d sd ne] .
  show "fst (play_url E c w url) = Inr result" using eq by simp
  show "map request (calls_since w (snd (snd (play_url E c w url)))) =
          [envelope ''download'' (PDict [(PStr ''url'', PStr url)])]"
    using eq requests_since_append [OF download_calls [OF d]] by simp
next
  assume a: "sd = PStr ''success'' \<and>
          get_status E c1 (sleep E w1 1) = (Inr status, c2, w2) \<and>
          status_of status = Some ss \<and> ss \<noteq> PStr ''success''"
  then have s: "get_status E c1 (sleep E w1 1) = (Inr status, c2, w2)" by simp
  have eq: "play_url E c w url = (Inr result, c2, w2)"
    using play_url_status_not_success [OF d _ s, of ss] sd a by simp
  show "fst (play_url E c w url) = Inr result" using eq by simp
  show "map request (calls_since w (snd (snd (play_url E c w url)))) =
          [envelope ''download'' (PDict [(PStr ''url'', PStr url)]),
           envelope ''get_status'' PNone]"
    using eq requests_since_append [OF two_calls [OF d s]] by simp
next
  assume a: "sd = PStr ''success'' \<and>
          get_status E c1 (sleep E w1 1) = (Inr status, c2, w2) \<and>
          status_of status = Some (PStr ''success'') \<and> playing status = Some p"
  then have s: "get_status E c1 (sleep E w1 1) = (Inr status, c2, w2)" by simp
  have eq: "play_url E c w url = (if p then (Inr result, c2, w2) else play E c2 w2)"
    using play_url_status_success [OF d _ s, of p] sd a by simp
  show "fst (play_url E c w url) = (if p then Inr result else fst (play E c2 w2))"
    using eq by simp
  have three: "calls (snd (snd (play E c2 w2))) =
              calls w @ [\<lparr>started = clock w, finished = clock w1,
                request = envelope ''download'' (PDict [(PStr ''url'', PStr url)]),
                answer = Inr result\<rparr>,
               \<lparr>started = clock (sleep E w1 1), finished = clock w2,
                request = envelope ''get_status'' PNone, answer = Inr status\<rparr>,
               \<lparr>started = clock w2, finished = clock (snd (snd (play E c2 w2))),
                request = envelope ''play'' PNone, answer = fst (play E c2 w2)\<rparr>]"
    using play_calls [of E c2 w2] two_calls [OF d s] by simp
  show "map request (calls_since w (snd (snd (play_url E c w url)))) =
          (if p
           then [envelope ''download'' (PDict [(PStr ''url'', PStr url)]),
                 envelope ''get_status'' PNone]
           else [envelope ''download'' (PDict [(PStr ''url'', PStr url)]),
                 envelope ''get_status'' PNone, envelope ''play'' PNone])"
    using eq requests_since_append [OF two_calls [OF d s]] requests_since_append [OF three]
    by simp
qed

theorem play_url_cases_witness:
  "fst (play_url idle_peer client0 world0 ''u'') = Inr started_response \<and>
   map request (calls (snd (snd (play_url idle_peer client0 world0 ''u'')))) =
     [envelope ''download'' (PDict [(PStr ''url'', PStr ''u'')]),
      envelope ''get_status'' PNone, envelope ''play'' PNone] \<and>
   fst (play_url busy_peer client0 world0 ''u'') = Inr ok_response \<and>
   map request (calls (snd (snd (play_url busy_peer client0 world0 ''u'')))) =
     [envelope ''download'' (PDict [(PStr ''url'', PStr ''u'')]),
      envelope ''get_status'' PNone] \<and>
   fst (play_url no_status_peer client0 world0 ''u'') = Inr ok_response \<and>
   map request (calls (snd (snd (play_url no_status_peer client0 world0 ''u'')))) =
     [envelope ''download'' (PDict [(PStr ''url'', PStr ''u'')]),
      envelope ''get_status'' PNone] \<and>
   fst (play_url error_peer client0 world0 ''u'') = Inr error_response \<and>
   map request (calls (snd (snd (play_url error_peer client0 world0 ''u'')))) =
     [envelope ''download'' (PDict [(PStr ''url'', PStr ''u'')])]"
proof -
  have idle: "fst (play_url idle_peer client0 world0 ''u'') = Inr started_response \<and>
      map request (calls_since world0 (snd (snd (play_url idle_peer client0 world0 ''u'')))) =
        [envelope ''download'' (PDict [(PStr ''url'', PStr ''u'')]),
         envelope ''get_status'' PNone, envelope ''play'' PNone]"
    using play_url_cases
        [OF by_command_download [of 1 client0 world0 "''u''", folded idle_peer_def]
            status_of_responses(1), THEN conjunct2, THEN conjunct2, THEN mp,
         OF conjI [OF refl conjI [OF idle_peer_get_status
                                    conjI [OF status_of_responses(2) status_of_responses(5)]]]]
    by (simp add: idle_peer_def by_command_play)
  have busy: "fst (play_url busy_peer client0 world0 ''u'') = Inr ok_response \<and>
      map request (calls_since world0 (snd (snd (play_url busy_peer client0 world0 ''u'')))) =
        [envelope ''download'' (PDict [(PStr ''url'', PStr ''u'')]),
         envelope ''get_status'' PNone]"
    using play_url_cases
        [OF by_command_download [of 2 client0 world0 "''u''", folded busy_peer_def]
            status_of_responses(1), THEN conjunct2, THEN conjunct2, THEN mp,
         OF conjI [OF refl conjI [OF busy_peer_get_status
                                    conjI [OF status_of_responses(3) status_of_responses(6)]]]]
    by simp
  have none: "fst (play_url no_status_peer client0 world0 ''u'') = Inr ok_response \<and>
      map request (calls_since world0 (snd (snd (play_url no_status_peer client0 world0 ''u'')))) =
        [envelope ''download'' (PDict [(PStr ''url'', PStr ''u'')]),
         envelope ''get_status'' PNone]"
    using play_url_cases
        [OF by_command_download [of 3 client0 world0 "''u''", folded no_status_peer_def]
            status_of_responses(1), THEN conjunct2, THEN conjunct1, THEN mp,
         OF conjI [OF refl conjI [OF no_status_peer_get_status
                                    conjI [OF status_of_responses(4)]]]]
    by simp
  have err: "fst (play_url error_peer client0 world0 ''u'') = Inr error_response \<and>
      map request (calls_since world0 (snd (snd (play_url error_peer client0 world0 ''u'')))) =
        [envelope ''download'' (PDict [(PStr ''url'', PStr ''u'')])]"
    using play_url_cases
        [OF error_peer_download [of client0 world0 "''u''"] status_of_responses(4),
         THEN conjunct1]
    by simp
  show ?thesis
    using idle busy none err by (simp add: calls_since_def calls_world0)
qed

text \<open>
  C4 as stated fails: the download succeeds, the status query answers with the status
  \<^verbatim>\<open>'error'\<close> and with \<^verbatim>\<open>is_playing\<close> false, and \<^verbatim>\<open>play_url\<close> returns the download's result
  after two calls. The download did not fail, the player is not playing, and no \<^verbatim>\<open>play\<close>
  call is issued.
\<close>

theorem play_url_no_status_counterexample:
  "fst (download no_status_peer client0 world0 ''u'') = Inr ok_response \<and>
   status_of ok_response = Some (PStr ''success'') \<and>
   fst (get_status no_status_peer (fst (snd (download no_status_peer client0 world0 ''u'')))
          (sleep no_status_peer (snd (snd (download no_status_peer client0 world0 ''u''))) 1)) =
     Inr error_response \<and>
   playing error_response = Some False \<and>
   fst (play_url no_status_peer client0 world0 ''u'') = Inr ok_response \<and>
   map request (calls (snd (snd (play_url no_status_peer client0 world0 ''u'')))) =
     [envelope ''download'' (PDict [(PStr ''url'', PStr ''u'')]),
      envelope ''get_status'' PNone]"
  by (simp add: play_url_def no_status_peer_def by_command_download by_command_get_status
      table_loads_def world0_def py_get_def status_of_def playing_def calls_sleep
      ok_response_def error_response_def del: One_nat_def)

text \<open>
  C10. When the download reports success and the status query that follows returns a
  response whose status is not \<^verbatim>\<open>'success'\<close>, \<^verbatim>\<open>play_url\<close> returns the download's result,
  and the requests it made are the download and the status query: no \<^verbatim>\<open>play\<close> call.
\<close>

theorem play_url_without_status:
  assumes d: "download E c w url = (Inr result, c1, w1)"
    and sd: "status_of result = Some (PStr ''success'')"
    and s: "get_status E c1 (sleep E w1 1) = (Inr status, c2, w2)"
    and ss: "status_of status = Some ss" and ne: "ss \<noteq> PStr ''success''"
  shows "fst (play_url E c w url) = Inr result \<and>
         map request (calls_since w (snd (snd (play_url E c w url)))) =
           [envelope ''download'' (PDict [(PStr ''url'', PStr url)]),
            envelope ''get_status'' PNone]"
  using play_url_status_not_success [OF d sd s ss ne]
    requests_since_append [OF two_calls [OF d s]]
  by simp

theorem play_url_without_status_witness:
  "fst (play_url no_status_peer client0 world0 ''u'') = Inr ok_response \<and>
   map request (calls (snd (snd (play_url no_status_peer client0 world0 ''u'')))) =
     [envelope ''download'' (PDict [(PStr ''url'', PStr ''u'')]),
      envelope ''get_status'' PNone]"
  using play_url_without_status
      [OF by_command_download [of 3 client0 world0 "''u''"] status_of_responses(1)
          _ status_of_responses(4)]
  by (simp add: by_command_get_status table_loads_def no_status_peer_def
      calls_since_def world0_def del: One_nat_def)

section \<open>Waiting for a download\<close>

lemma polls_none: "polls w start_time tmo (Inr (PBool False)) []"
  by (simp add: polls_def)

lemma polls_one:
  assumes "int (clock w) - int start_time < tmo * int second"
    and "request e = envelope ''get_status'' PNone" and "started e = clock w"
    and "reported_status e = None \<or>
         reported_status e \<noteq> Some (PStr ''success'') \<and> r = Inr (PBool True)"
  shows "polls w start_time tmo r [e]"
  using assms by (auto simp: polls_def)

lemma spaced_Cons: "spaced ts \<Longrightarrow> \<forall>u\<in>set ts. t + second \<le> u \<Longrightarrow> spaced (t # ts)"
  by (cases ts) simp_all

lemma polls_more:
  assumes now: "int (clock w) - int start_time < tmo * int second"
    and e: "request e = envelope ''get_status'' PNone" "started e = clock w"
      "reported_status e = Some (PStr ''success'')"
    and later: "clock w + second \<le> clock v"
    and rest: "polls v start_time tmo r new"
  shows "polls w start_time tmo r (e # new)"
proof -
  have a: "\<forall>x\<in>set (e # new). request x = envelope ''get_status'' PNone \<and> clock w \<le> started x"
    using e later rest by (auto simp: polls_def)
  have "\<forall>u\<in>set (map started new). started e + second \<le> u"
    using e later rest by (auto simp: polls_def)
  then have b: "spaced (map started (e # new))"
    using rest by (simp add: polls_def spaced_Cons)
  have c: "int (length (e # new)) * int second
             < tmo * int second - (int (clock w) - int start_time) + int second"
  proof (cases "new = []")
    case True
    then show ?thesis using now by simp
  next
    case False
    then have "int (length new) * int second
                 < tmo * int second - (int (clock v) - int start_time) + int second"
      using rest by (simp add: polls_def)
    then show ?thesis using later by (simp add: algebra_simps)
  qed
  have d: "(\<forall>x\<in>set (e # new). reported_status x = Some (PStr ''success'')) \<longrightarrow>
             r = Inr (PBool False)"
    using rest by (simp add: polls_def)
  have f: "\<forall>i<length (e # new).
         reported_status ((e # new) ! i) \<noteq> None \<and>
         reported_status ((e # new) ! i) \<noteq> Some (PStr ''success'') \<longrightarrow>
           Suc i = length (e # new) \<and> r = Inr (PBool True)"
  proof (intro allI impI)
    fix i
    assume i: "i < length (e # new)"
      and other: "reported_status ((e # new) ! i) \<noteq> None \<and>
         reported_status ((e # new) ! i) \<noteq> Some (PStr ''success'')"
    show "Suc i = length (e # new) \<and> r = Inr (PBool True)"
    proof (cases i)
      case 0
      then show ?thesis using other e(3) by simp
    next
      case (Suc j)
      then show ?thesis using i other rest by (simp add: polls_def)
    qed
  qed
  show ?thesis
    unfolding polls_def using a b c d f by blast
qed

lemma clock_sleep: "clock (sleep E w 1) = clock w + second + oversleep E (clock w)"
  by (simp add: sleep_def)

lemma get_status_clock:
  "get_status E c w = (r, c1, w1) \<Longrightarrow> clock w \<le> clock w1"
  using clock_get_status [of r c1 w1 E c w] by simp

lemma paces_none:
  "\<not> int (clock w) - int start_time < tmo * int second \<Longrightarrow>
     paces E w start_time tmo (Inr (PBool False)) (clock w) []"
  by (simp add: paces_def)

lemma paces_one:
  assumes "int (clock w) - int start_time < tmo * int second"
    and "started e = clock w" and "r \<noteq> Inr (PBool False)"
    and "r = Inr (PBool True) \<longrightarrow>
           reported_status e \<noteq> None \<and> reported_status e \<noteq> Some (PStr ''success'')"
  shows "paces E w start_time tmo r (finished e) [e]"
  using assms by (simp add: paces_def)

lemma paces_more:
  assumes now: "int (clock w) - int start_time < tmo * int second"
    and e: "started e = clock w" "reported_status e = Some (PStr ''success'')"
    and v: "clock v = finished e + second + oversleep E (finished e)"
    and rest: "paces E v start_time tmo r fin new"
  shows "paces E w start_time tmo r fin (e # new)"
proof -
  have "\<forall>x\<in>set new. int (started x) - int start_time < tmo * int second"
    using rest unfolding paces_def by blast
  then have a: "\<forall>x\<in>set (e # new). int (started x) - int start_time < tmo * int second"
    using now e(1) by simp
  have b: "paced E (e # new)"
  proof (cases new)
    case Nil
    then show ?thesis by simp
  next
    case (Cons e' es)
    have "new \<noteq> [] \<longrightarrow> started (hd new) = clock v" "paced E new"
      using rest unfolding paces_def by blast+
    then show ?thesis using Cons v by simp
  qed
  have c: "r = Inr (PBool False) \<longrightarrow>
         tmo * int second \<le> int fin - int start_time \<and>
         (\<forall>x\<in>set (e # new). reported_status x = Some (PStr ''success''))"
  proof -
    have "r = Inr (PBool False) \<longrightarrow>
         tmo * int second \<le> int fin - int start_time \<and>
         (\<forall>x\<in>set new. reported_status x = Some (PStr ''success''))"
      using rest unfolding paces_def by blast
    then show ?thesis using e(2) by simp
  qed
  have d: "r = Inr (PBool True) \<longrightarrow>
         e # new \<noteq> [] \<and> reported_status (last (e # new)) \<noteq> None \<and>
         reported_status (last (e # new)) \<noteq> Some (PStr ''success'')"
  proof -
    have "r = Inr (PBool True) \<longrightarrow>
         new \<noteq> [] \<and> reported_status (last new) \<noteq> None \<and>
         reported_status (last new) \<noteq> Some (PStr ''success'')"
      using rest unfolding paces_def by blast
    then show ?thesis by simp
  qed
  have f: "fin = (if r = Inr (PBool False)
             then finished (last (e # new)) + second + oversleep E (finished (last (e # new)))
             else finished (last (e # new)))"
  proof (cases "new = []")
    case True
    have "new = [] \<longrightarrow> r = Inr (PBool False)"
      using rest unfolding paces_def by blast
    moreover have "fin = (if new = [] then clock v
             else if r = Inr (PBool False)
             then finished (last new) + second + oversleep E (finished (last new))
             else finished (last new))"
      using rest unfolding paces_def by blast
    ultimately show ?thesis using True v by simp
  next
    case False
    have "fin = (if new = [] then clock v
             else if r = Inr (PBool False)
             then finished (last new) + second + oversleep E (finished (last new))
             else finished (last new))"
      using rest unfolding paces_def by blast
    then show ?thesis using False by simp
  qed
  show ?thesis
    unfolding paces_def using a b c d f e(1) by simp
qed

lemma wait_loop_polls:
  "\<exists>new. calls (snd (snd (wait_loop E c w start_time tmo))) = calls w @ new \<and>
         polls w start_time tmo (fst (wait_loop E c w start_time tmo)) new"
proof (induction E c w start_time tmo rule: wait_loop.induct)
  case (1 E c w start_time tmo)
  obtain r1 c1 w1 where s: "get_status E c w = (r1, c1, w1)"
    by (cases "get_status E c w")
  define e where "e = \<lparr>started = clock w, finished = clock w1,
                              request = envelope ''get_status'' PNone, answer = r1\<rparr>"
  have w1: "calls w1 = calls w @ [e]"
    using get_status_calls [OF s] by (simp add: e_def)
  have e: "request e = envelope ''get_status'' PNone" "started e = clock w"
    by (simp_all add: e_def)
  note unfold = wait_loop.simps [of E c w start_time tmo]
  show ?case
  proof (cases "int (clock w) - int start_time < tmo * int second")
    case False
    then show ?thesis by (simp add: unfold polls_none)
  next
    case True
    show ?thesis
    proof (cases r1)
      case (Inl err)
      then have "reported_status e = None" by (simp add: e_def reported_status_def)
      then have "polls w start_time tmo (Inl err) [e]"
        using polls_one [OF True e] by simp
      then show ?thesis using True s Inl w1 by (simp add: unfold)
    next
      case (Inr status)
      show ?thesis
      proof (cases "py_get status ''status'' PNone")
        case (Inl err)
        then have "reported_status e = None"
          using Inr by (simp add: e_def reported_status_def status_of_def)
        then have "polls w start_time tmo (Inl err) [e]"
          using polls_one [OF True e] by simp
        then show ?thesis using True s Inr Inl w1 by (simp add: unfold)
      next
        case st: (Inr st)
        then have rep: "reported_status e = Some st"
          using Inr by (simp add: e_def reported_status_def status_of_def)
        show ?thesis
        proof (cases "st = PStr ''success''")
          case False
          then have "polls w start_time tmo (Inr (PBool True)) [e]"
            using polls_one [OF True e] rep by simp
          then show ?thesis using True s Inr st False w1 by (simp add: unfold)
        next
          case succ: True
          have s': "(Inr status, c1, w1) = get_status E c w"
            using s Inr by simp
          obtain new where new: "calls (snd (snd (wait_loop E c1 (sleep E w1 1) start_time tmo))) =
                calls (sleep E w1 1) @ new"
            "polls (sleep E w1 1) start_time tmo
               (fst (wait_loop E c1 (sleep E w1 1) start_time tmo)) new"
            using "1.IH" [OF True s' refl refl st succ] by blast
          have later: "clock w + second \<le> clock (sleep E w1 1)"
            using get_status_clock [OF s] by (simp add: clock_sleep del: One_nat_def)
          have "polls w start_time tmo (fst (wait_loop E c1 (sleep E w1 1) start_time tmo))
                  (e # new)"
            using polls_more [OF True e _ later new(2)] rep succ by simp
          moreover have "calls (snd (snd (wait_loop E c1 (sleep E w1 1) start_time tmo))) =
                calls w @ e # new"
            using new(1) w1 by (simp add: calls_sleep del: One_nat_def)
          ultimately show ?thesis
            using True s Inr st succ by (simp add: unfold del: One_nat_def)
        qed
      qed
    qed
  qed
qed

lemma wait_loop_paces:
  "\<exists>new. calls (snd (snd (wait_loop E c w start_time tmo))) = calls w @ new \<and>
         paces E w start_time tmo (fst (wait_loop E c w start_time tmo))
           (clock (snd (snd (wait_loop E c w start_time tmo)))) new"
proof (induction E c w start_time tmo rule: wait_loop.induct)
  case (1 E c w start_time tmo)
  obtain r1 c1 w1 where s: "get_status E c w = (r1, c1, w1)"
    by (cases "get_status E c w")
  define e where "e = \<lparr>started = clock w, finished = clock w1,
                        request = envelope ''get_status'' PNone, answer = r1\<rparr>"
  have w1: "calls w1 = calls w @ [e]"
    using get_status_calls [OF s] by (simp add: e_def)
  have e: "started e = clock w" "finished e = clock w1"
    by (simp_all add: e_def)
  note unfold = wait_loop.simps [of E c w start_time tmo]
  show ?case
  proof (cases "int (clock w) - int start_time < tmo * int second")
    case False
    then show ?thesis by (simp add: unfold paces_none)
  next
    case True
    show ?thesis
    proof (cases r1)
      case (Inl err)
      have "paces E w start_time tmo (Inl err) (finished e) [e]"
        using paces_one [OF True e(1), of "Inl err" E] by simp
      then show ?thesis using True s Inl w1 e(2) by (simp add: unfold)
    next
      case (Inr status)
      show ?thesis
      proof (cases "py_get status ''status'' PNone")
        case (Inl err)
        have "paces E w start_time tmo (Inl err) (finished e) [e]"
          using paces_one [OF True e(1), of "Inl err" E] by simp
        then show ?thesis using True s Inr Inl w1 e(2) by (simp add: unfold)
      next
        case st: (Inr st)
        then have rep: "reported_status e = Some st"
          using Inr by (simp add: e_def reported_status_def status_of_def)
        show ?thesis
        proof (cases "st = PStr ''success''")
          case False
          then have "paces E w start_time tmo (Inr (PBool True)) (finished e) [e]"
            using paces_one [OF True e(1), of "Inr (PBool True)" E] rep by simp
          then show ?thesis using True s Inr st False w1 e(2) by (simp add: unfold)
        next
          case succ: True
          have s': "(Inr status, c1, w1) = get_status E c w"
            using s Inr by simp
          obtain new where new:
            "calls (snd (snd (wait_loop E c1 (sleep E w1 1) start_time tmo))) =
               calls (sleep E w1 1) @ new"
            "paces E (sleep E w1 1) start_time tmo
               (fst (wait_loop E c1 (sleep E w1 1) start_time tmo))
               (clock (snd (snd (wait_loop E c1 (sleep E w1 1) start_time tmo)))) new"
            using "1.IH" [OF True s' refl refl st succ] by blast
          have v: "clock (sleep E w1 1) = finished e + second + oversleep E (finished e)"
            using e(2) by (simp add: clock_sleep del: One_nat_def)
          have "paces E w start_time tmo (fst (wait_loop E c1 (sleep E w1 1) start_time tmo))
                  (clock (snd (snd (wait_loop E c1 (sleep E w1 1) start_time tmo)))) (e # new)"
            using paces_more [OF True e(1) _ v new(2)] rep succ by simp
          moreover have "calls (snd (snd (wait_loop E c1 (sleep E w1 1) start_time tmo))) =
                calls w @ e # new"
            using new(1) w1 by (simp add: calls_sleep del: One_nat_def)
          ultimately show ?thesis
            using True s Inr st succ by (simp add: unfold del: One_nat_def)
        qed
      qed
    qed
  qed
qed

text \<open>
  C5. The calls that \<^verbatim>\<open>wait_for_download(timeout)\<close> makes are status queries. With a
  positive timeout there is a first poll, at once; every poll starts before \<^verbatim>\<open>timeout\<close>
  seconds have passed; each later poll starts when the poll before it has returned and
  one \<^verbatim>\<open>time.sleep(1)\<close> is over, so the polls lie a second or more apart and there are at
  most \<^verbatim>\<open>timeout\<close> of them (none for a timeout that is not positive). If every poll
  reports the status \<^verbatim>\<open>'success'\<close> the result is \<^verbatim>\<open>False\<close>, and it is \<^verbatim>\<open>False\<close> only then
  and only when \<^verbatim>\<open>timeout\<close> seconds have passed. A poll that reports any other status is
  the last poll and makes the result \<^verbatim>\<open>True\<close>, and the result is \<^verbatim>\<open>True\<close> only then.
\<close>

theorem wait_for_download_polls:
  assumes run: "wait_for_download E c w tmo = (r, c', w')" and new: "new = calls_since w w'"
  shows "calls w' = calls w @ new \<and>
         (\<forall>e\<in>set new. request e = envelope ''get_status'' PNone) \<and>
         spaced (map started new) \<and>
         int (length new) \<le> max 0 tmo \<and>
         ((\<forall>e\<in>set new. reported_status e = Some (PStr ''success'')) \<longrightarrow>
            r = Inr (PBool False)) \<and>
         (\<forall>i<length new.
            reported_status (new ! i) \<noteq> None \<and>
            reported_status (new ! i) \<noteq> Some (PStr ''success'') \<longrightarrow>
              Suc i = length new \<and> r = Inr (PBool True)) \<and>
         (0 < tmo \<longrightarrow> new \<noteq> []) \<and>
         (new \<noteq> [] \<longrightarrow> started (hd new) = clock w) \<and>
         (\<forall>e\<in>set new. int (started e) - int (clock w) < tmo * int second) \<and>
         paced E new \<and>
         (r = Inr (PBool False) \<longrightarrow>
            tmo * int second \<le> int (clock w') - int (clock w) \<and>
            (\<forall>e\<in>set new. reported_status e = Some (PStr ''success''))) \<and>
         (r = Inr (PBool True) \<longrightarrow>
            new \<noteq> [] \<and> reported_status (last new) \<noteq> None \<and>
            reported_status (last new) \<noteq> Some (PStr ''success'')) \<and>
         clock w' =
           (if new = [] then clock w
            else if r = Inr (PBool False)
            then finished (last new) + second + oversleep E (finished (last new))
            else finished (last new))"
proof -
  obtain xs where xs: "calls w' = calls w @ xs" "polls w (clock w) tmo r xs"
    using wait_loop_polls [of E c w "clock w" tmo] run
    by (auto simp: wait_for_download_def)
  obtain ys where ys: "calls w' = calls w @ ys" "paces E w (clock w) tmo r (clock w') ys"
    using wait_loop_paces [of E c w "clock w" tmo] run
    by (auto simp: wait_for_download_def)
  have eq: "new = xs" using xs(1) new by (simp add: calls_since_def)
  have eq': "ys = xs" using xs(1) ys(1) by simp
  have "xs = [] \<or> int (length xs) * int second < tmo * int second + int second"
    using xs(2) by (simp add: polls_def)
  then have "xs = [] \<or> int (length xs) * int second < (tmo + 1) * int second"
    by (simp add: algebra_simps)
  then have "xs = [] \<or> int (length xs) < tmo + 1"
    by (auto simp: second_def)
  then have bound: "int (length xs) \<le> max 0 tmo" by auto
  have old: "calls w' = calls w @ xs \<and>
         (\<forall>e\<in>set xs. request e = envelope ''get_status'' PNone) \<and>
         spaced (map started xs) \<and>
         int (length xs) \<le> max 0 tmo \<and>
         ((\<forall>e\<in>set xs. reported_status e = Some (PStr ''success'')) \<longrightarrow>
            r = Inr (PBool False)) \<and>
         (\<forall>i<length xs.
            reported_status (xs ! i) \<noteq> None \<and>
            reported_status (xs ! i) \<noteq> Some (PStr ''success'') \<longrightarrow>
              Suc i = length xs \<and> r = Inr (PBool True))"
    using xs bound unfolding polls_def by blast
  have p: "paces E w (clock w) tmo r (clock w') xs" using ys(2) eq' by simp
  have n1: "0 < tmo \<longrightarrow> xs \<noteq> []"
  proof
    assume "0 < tmo"
    then have "int (clock w) - int (clock w) < tmo * int second" by (simp add: second_def)
    moreover have "int (clock w) - int (clock w) < tmo * int second \<longrightarrow> xs \<noteq> []"
      using p unfolding paces_def by blast
    ultimately show "xs \<noteq> []" by blast
  qed
  have n2: "(xs \<noteq> [] \<longrightarrow> started (hd xs) = clock w) \<and>
         (\<forall>e\<in>set xs. int (started e) - int (clock w) < tmo * int second) \<and>
         paced E xs \<and>
         (r = Inr (PBool False) \<longrightarrow>
            tmo * int second \<le> int (clock w') - int (clock w) \<and>
            (\<forall>e\<in>set xs. reported_status e = Some (PStr ''success''))) \<and>
         (r = Inr (PBool True) \<longrightarrow>
            xs \<noteq> [] \<and> reported_status (last xs) \<noteq> None \<and>
            reported_status (last xs) \<noteq> Some (PStr ''success'')) \<and>
         clock w' =
           (if xs = [] then clock w
            else if r = Inr (PBool False)
            then finished (last xs) + second + oversleep E (finished (last xs))
            else finished (last xs))"
    using p unfolding paces_def by blast
  show ?thesis
    unfolding eq using old n1 n2 by blast
qed

lemma wait_for_download_ok_peer:
  "wait_for_download ok_peer client0 world0 3 =
     (Inr (PBool False), client0\<lparr>connected := True\<rparr>,
      \<lparr>clock = 3 * second,
       calls = [\<lparr>started = 0, finished = 0, request = envelope ''get_status'' PNone,
                 answer = Inr ok_response\<rparr>,
                \<lparr>started = second, finished = second,
                        request = envelope ''get_status'' PNone,
                 answer = Inr ok_response\<rparr>,
                \<lparr>started = 2 * second, finished = 2 * second,
                        request = envelope ''get_status'' PNone,
                 answer = Inr ok_response\<rparr>]\<rparr>)"
  by (simp add: wait_for_download_def wait_loop.simps ok_peer_get_status ok_peer_sleep
      py_get_ok world0_def second_def del: One_nat_def)

lemma failing_later_peer_get_status:
  "get_status failing_later_peer c w =
     (Inr (if calls w = [] then ok_response else error_response), c\<lparr>connected := True\<rparr>,
      w\<lparr>calls := calls w @ [\<lparr>started = clock w, finished = clock w,
                                           request = envelope ''get_status'' PNone,
            answer = Inr (if calls w = [] then ok_response else error_response)\<rparr>]\<rparr>)"
  by (simp add: get_status_def send_command_def failing_later_peer_def peer_of_def
      replying_def exchange_def table_dumps_def table_loads_def Let_def)

lemma failing_later_peer_sleep: "sleep failing_later_peer w 1 = w\<lparr>clock := clock w + second\<rparr>"
  by (simp add: sleep_def failing_later_peer_def peer_of_def)

lemma wait_for_download_failing_later_peer:
  "wait_for_download failing_later_peer client0 world0 3 =
     (Inr (PBool True), client0\<lparr>connected := True\<rparr>,
      \<lparr>clock = second,
       calls = [\<lparr>started = 0, finished = 0, request = envelope ''get_status'' PNone,
                 answer = Inr ok_response\<rparr>,
                \<lparr>started = second, finished = second,
                        request = envelope ''get_status'' PNone,
                 answer = Inr error_response\<rparr>]\<rparr>)"
  by (simp add: wait_for_download_def wait_loop.simps failing_later_peer_get_status
      failing_later_peer_sleep py_get_def ok_response_def
      error_response_def world0_def second_def del: One_nat_def)

theorem wait_for_download_polls_witness:
  "fst (wait_for_download ok_peer client0 world0 3) = Inr (PBool False) \<and>
   map reported_status
     (calls_since world0 (snd (snd (wait_for_download ok_peer client0 world0 3)))) =
     [Some (PStr ''success''), Some (PStr ''success''), Some (PStr ''success'')] \<and>
   map started
     (calls_since world0 (snd (snd (wait_for_download ok_peer client0 world0 3)))) =
     [0, second, 2 * second] \<and>
   clock (snd (snd (wait_for_download ok_peer client0 world0 3))) = 3 * second \<and>
   fst (wait_for_download failing_later_peer client0 world0 3) = Inr (PBool True) \<and>
   map reported_status
     (calls_since world0 (snd (snd (wait_for_download failing_later_peer client0 world0 3)))) =
     [Some (PStr ''success''), Some (PStr ''error'')]"
  using wait_for_download_polls [OF wait_for_download_ok_peer refl, THEN conjunct1]
    wait_for_download_polls [OF wait_for_download_failing_later_peer refl, THEN conjunct1]
  by (simp add: wait_for_download_ok_peer wait_for_download_failing_later_peer
      calls_since_def calls_world0 reported_status_def status_of_def py_get_def
      ok_response_def error_response_def)

end
